theory Spec2Isabelle
  imports Main "HOL-Library.Word"
begin

section \<open>SecureShare: the encryption engine and its storage adapter\<close>

text \<open>
  The development embeds \<^verbatim>\<open>utils/encryption.ts\<close> (key derivation, checksum,
  \<^verbatim>\<open>encryptFile\<close>, \<^verbatim>\<open>decryptFile\<close>) and the two functions of
  \<^verbatim>\<open>utils/supabaseStorage.ts\<close> that persist and reload an encrypted file.

  The repository does not implement any cryptography: PBKDF2, AES-GCM, SHA-256, the
  random source and the text encoder are the browser's (\<^verbatim>\<open>crypto.subtle\<close>,
  \<^verbatim>\<open>crypto.getRandomValues\<close>, \<^verbatim>\<open>TextEncoder\<close>). They are parameters
  of the model: a record \<open>platform\<close> of functions, and an explicit stream of random
  bytes. What a theorem needs of them is a named hypothesis on the record.
\<close>

subsection \<open>Data\<close>

type_synonym byte = "8 word"

text \<open>The interface \<^verbatim>\<open>EncryptedFile\<close>, field by field.\<close>

record EncryptedFile =
  encryptedData :: "byte list"
  iv :: "byte list"
  salt :: "byte list"
  authTag :: "byte list"
  filename :: string
  originalSize :: nat
  timestamp :: int
  checksum :: string

text \<open>
  A browser \<^verbatim>\<open>File\<close>: its name, its bytes (what \<^verbatim>\<open>arrayBuffer()\<close> reads) and
  its MIME type. \<^verbatim>\<open>file.size\<close> is the number of bytes.
\<close>

record File =
  name :: string
  content :: "byte list"
  mime_type :: string

definition size_of :: "File \<Rightarrow> nat" where
  "size_of f = length (content f)"

text \<open>
  A thrown value: \<^verbatim>\<open>new Error(message)\<close> of the source, the platform's
  \<^verbatim>\<open>OperationError\<close> (AES-GCM tag mismatch), \<^verbatim>\<open>InvalidCharacterError\<close>
  (\<^verbatim>\<open>atob\<close> on a string that is not base64) and \<^verbatim>\<open>RangeError\<close> (a call
  with more arguments than the engine takes).
\<close>

datatype js_error = Error string | OperationError | InvalidCharacterError | RangeError

datatype hash_alg = SHA_1 | SHA_256 | SHA_384 | SHA_512

type_synonym CryptoKey = "byte list"

text \<open>
  The browser's primitives, as the source calls them:
  \<^item> \<open>text_encode\<close>: \<^verbatim>\<open>new TextEncoder().encode\<close>;
  \<^item> \<open>pbkdf2 h pw s c n\<close>: \<^verbatim>\<open>importKey('raw', pw, 'PBKDF2', ...)\<close> followed by
    \<^verbatim>\<open>deriveKey({name: 'PBKDF2', salt: s, iterations: c, hash: h}, _, {name: 'AES-GCM', length: n}, ...)\<close>;
  \<^item> \<open>aes_gcm_encrypt k iv t p\<close>: \<^verbatim>\<open>encrypt({name: 'AES-GCM', iv, tagLength: t}, k, p)\<close>,
    the ciphertext followed by the tag;
  \<^item> \<open>aes_gcm_decrypt k iv t c\<close>: \<^verbatim>\<open>decrypt\<close> with the same parameters, \<open>None\<close> when it
    throws \<^verbatim>\<open>OperationError\<close>;
  \<^item> \<open>digest h d\<close>: \<^verbatim>\<open>crypto.subtle.digest(h, d)\<close>.
\<close>

record platform =
  text_encode :: "string \<Rightarrow> byte list"
  pbkdf2 :: "hash_alg \<Rightarrow> byte list \<Rightarrow> byte list \<Rightarrow> nat \<Rightarrow> nat \<Rightarrow> CryptoKey"
  aes_gcm_encrypt :: "CryptoKey \<Rightarrow> byte list \<Rightarrow> nat \<Rightarrow> byte list \<Rightarrow> byte list"
  aes_gcm_decrypt :: "CryptoKey \<Rightarrow> byte list \<Rightarrow> nat \<Rightarrow> byte list \<Rightarrow> byte list option"
  digest :: "hash_alg \<Rightarrow> byte list \<Rightarrow> byte list"

text \<open>
  The random source is the stream of bytes it will hand out;
  \<^verbatim>\<open>crypto.getRandomValues(new Uint8Array(n))\<close> takes the next \<open>n\<close> of them.
\<close>

type_synonym rng = "nat \<Rightarrow> byte"

definition getRandomValues :: "nat \<Rightarrow> rng \<Rightarrow> byte list \<times> rng" where
  "getRandomValues n r = (map r [0..<n], (\<lambda>i. r (i + n)))"

subsection \<open>Array helpers of the language\<close>

text \<open>
  \<^verbatim>\<open>ArrayBuffer.prototype.slice(begin, end)\<close>: a negative index counts from the end,
  and both are clamped to the buffer.
\<close>

definition rel_index :: "nat \<Rightarrow> int \<Rightarrow> nat" where
  "rel_index len i = (if i < 0 then nat (max (int len + i) 0) else min (nat i) len)"

definition slice :: "'a list \<Rightarrow> int \<Rightarrow> int \<Rightarrow> 'a list" where
  "slice xs b e =
     (let first = rel_index (length xs) b; final = rel_index (length xs) e
      in take (final - first) (drop first xs))"

definition slice_from :: "'a list \<Rightarrow> int \<Rightarrow> 'a list" where
  "slice_from xs b = slice xs b (int (length xs))"

text \<open>\<^verbatim>\<open>b.toString(16).padStart(2, '0')\<close> for a byte.\<close>

definition hex_digit :: "nat \<Rightarrow> char" where
  "hex_digit n = ''0123456789abcdef'' ! n"

definition hex_byte :: "byte \<Rightarrow> string" where
  "hex_byte b = [hex_digit (unat b div 16), hex_digit (unat b mod 16)]"

subsection \<open>utils/encryption.ts\<close>

text \<open>
  \<^verbatim>\<open>deriveKey\<close>: PBKDF2 over the encoded password with the given salt, 100000
  iterations of SHA-256, for an AES-GCM key of 256 bits. The function has no check and no
  \<^verbatim>\<open>throw\<close> of its own.
\<close>

definition deriveKey :: "platform \<Rightarrow> string \<Rightarrow> byte list \<Rightarrow> js_error + CryptoKey" where
  "deriveKey pf password slt =
     (let passwordBuffer = text_encode pf password
      in Inr (pbkdf2 pf SHA_256 passwordBuffer slt 100000 256))"

definition generateSalt :: "rng \<Rightarrow> byte list \<times> rng" where
  "generateSalt r = getRandomValues 32 r"

definition generateIV :: "rng \<Rightarrow> byte list \<times> rng" where
  "generateIV r = getRandomValues 12 r"

definition calculateChecksum :: "platform \<Rightarrow> byte list \<Rightarrow> string" where
  "calculateChecksum pf d = concat (map hex_byte (digest pf SHA_256 d))"

text \<open>
  \<^verbatim>\<open>encryptFile\<close>, in the order of the source: salt, IV, key, file bytes, checksum,
  AES-GCM, then the split of the trailing 16 bytes. \<open>now\<close> is what \<^verbatim>\<open>Date.now()\<close>
  returns. The result comes with the random source as the call leaves it.
\<close>

definition encryptFile ::
  "platform \<Rightarrow> rng \<Rightarrow> int \<Rightarrow> File \<Rightarrow> string \<Rightarrow> (js_error + EncryptedFile) \<times> rng" where
  "encryptFile pf r now file password =
     (let (slt, r1) = generateSalt r;
          (nonce, r2) = generateIV r1
      in case deriveKey pf password slt of
           Inl e \<Rightarrow> (Inl e, r2)
         | Inr key \<Rightarrow>
             (let fileBuffer = content file;
                  originalChecksum = calculateChecksum pf fileBuffer;
                  encrypted = aes_gcm_encrypt pf key nonce 128 fileBuffer;
                  tag = slice_from encrypted (- 16);
                  ciphertext = slice encrypted 0 (- 16)
              in (Inr \<lparr> encryptedData = ciphertext,
                         iv = nonce,
                         salt = slt,
                         authTag = tag,
                         filename = name file,
                         originalSize = size_of file,
                         timestamp = now,
                         checksum = originalChecksum \<rparr>, r2)))"

text \<open>
  The body of the \<^verbatim>\<open>try\<close> block of \<^verbatim>\<open>decryptFile\<close>: AES-GCM on the ciphertext
  with the tag appended again, then the checksum comparison, which throws its own message.
\<close>

definition decryptFile_try ::
  "platform \<Rightarrow> EncryptedFile \<Rightarrow> CryptoKey \<Rightarrow> byte list \<Rightarrow> js_error + File" where
  "decryptFile_try pf encryptedFile key fullEncryptedData =
     (case aes_gcm_decrypt pf key (iv encryptedFile) 128 fullEncryptedData of
        None \<Rightarrow> Inl OperationError
      | Some decryptedData \<Rightarrow>
          (let decryptedChecksum = calculateChecksum pf decryptedData
           in if decryptedChecksum \<noteq> checksum encryptedFile
              then Inl (Error ''File integrity verification failed - file may be corrupted'')
              else Inr \<lparr> name = filename encryptedFile,
                         content = decryptedData,
                         mime_type = ''application/octet-stream'' \<rparr>))"

text \<open>
  \<^verbatim>\<open>decryptFile\<close>: the key is derived outside the \<^verbatim>\<open>try\<close>; whatever the
  \<^verbatim>\<open>try\<close> block throws is caught and replaced by one message.
\<close>

definition decryptFile :: "platform \<Rightarrow> EncryptedFile \<Rightarrow> string \<Rightarrow> js_error + File" where
  "decryptFile pf encryptedFile password =
     (case deriveKey pf password (salt encryptedFile) of
        Inl e \<Rightarrow> Inl e
      | Inr key \<Rightarrow>
          (let fullEncryptedData = encryptedData encryptedFile @ authTag encryptedFile
           in case decryptFile_try pf encryptedFile key fullEncryptedData of
                Inl error \<Rightarrow>
                  Inl (Error ''Failed to decrypt file - incorrect password or corrupted data'')
              | Inr file \<Rightarrow> Inr file))"

subsection \<open>Base64, as the browser's \<^verbatim>\<open>btoa\<close> and \<^verbatim>\<open>atob\<close>\<close>

text \<open>
  \<^verbatim>\<open>btoa\<close> encodes a string of characters below 256 in the standard alphabet with
  \<^verbatim>\<open>=\<close> padding; \<^verbatim>\<open>atob\<close> is the forgiving decoder: it drops ASCII whitespace,
  removes one or two trailing \<^verbatim>\<open>=\<close> when the length is a multiple of four, fails on
  a length of one modulo four or on a character outside the alphabet (the source's
  \<^verbatim>\<open>InvalidCharacterError\<close>), and discards the bits left over.
\<close>

definition b64_char :: "nat \<Rightarrow> char" where
  "b64_char n =
     (if n < 26 then char_of (65 + n)
      else if n < 52 then char_of (71 + n)
      else if n < 62 then char_of (n - 4)
      else if n = 62 then CHR ''+'' else CHR ''/'')"

definition b64_index :: "char \<Rightarrow> nat option" where
  "b64_index c =
     (let n = (of_char c :: nat)
      in if 65 \<le> n \<and> n \<le> 90 then Some (n - 65)
         else if 97 \<le> n \<and> n \<le> 122 then Some (n - 71)
         else if 48 \<le> n \<and> n \<le> 57 then Some (n + 4)
         else if c = CHR ''+'' then Some 62
         else if c = CHR ''/'' then Some 63
         else None)"

fun b64_encode :: "nat list \<Rightarrow> string" where
  "b64_encode (a # b # c # rest) =
     [b64_char (a div 4), b64_char ((a mod 4) * 16 + b div 16),
      b64_char ((b mod 16) * 4 + c div 64), b64_char (c mod 64)] @ b64_encode rest"
| "b64_encode [a, b] =
     [b64_char (a div 4), b64_char ((a mod 4) * 16 + b div 16),
      b64_char ((b mod 16) * 4), CHR ''='']"
| "b64_encode [a] = [b64_char (a div 4), b64_char ((a mod 4) * 16), CHR ''='', CHR ''='']"
| "b64_encode [] = []"

definition btoa :: "string \<Rightarrow> string" where
  "btoa s = b64_encode (map of_char s)"

fun b64_decode :: "nat list \<Rightarrow> nat list" where
  "b64_decode (p # q # r # s # rest) =
     [p * 4 + q div 16, (q mod 16) * 16 + r div 4, (r mod 4) * 64 + s] @ b64_decode rest"
| "b64_decode [p, q, r] = [p * 4 + q div 16, (q mod 16) * 16 + r div 4]"
| "b64_decode [p, q] = [p * 4 + q div 16]"
| "b64_decode _ = []"

definition ascii_whitespace :: "char \<Rightarrow> bool" where
  "ascii_whitespace c = (of_char c \<in> {9, 10, 12, 13, 32 :: nat})"

definition strip_padding :: "string \<Rightarrow> string" where
  "strip_padding d =
     (if length d mod 4 = 0 then
        (if 2 \<le> length d \<and> drop (length d - 2) d = ''=='' then take (length d - 2) d
         else if 1 \<le> length d \<and> drop (length d - 1) d = ''='' then take (length d - 1) d
         else d)
      else d)"

definition atob :: "string \<Rightarrow> string option" where
  "atob s =
     (let d = strip_padding (filter (\<lambda>c. \<not> ascii_whitespace c) s)
      in if length d mod 4 = 1 then None
         else case those (map b64_index d) of
                None \<Rightarrow> None
              | Some sextets \<Rightarrow> Some (map char_of (b64_decode sextets)))"

text \<open>The sextets of the encoding and the number of padding characters, for the proofs.\<close>

fun b64_sextets :: "nat list \<Rightarrow> nat list" where
  "b64_sextets (a # b # c # rest) =
     [a div 4, (a mod 4) * 16 + b div 16, (b mod 16) * 4 + c div 64, c mod 64] @ b64_sextets rest"
| "b64_sextets [a, b] = [a div 4, (a mod 4) * 16 + b div 16, (b mod 16) * 4]"
| "b64_sextets [a] = [a div 4, (a mod 4) * 16]"
| "b64_sextets [] = []"

definition b64_pad :: "nat list \<Rightarrow> nat" where
  "b64_pad bs = (3 - length bs mod 3) mod 3"

text \<open>
  \<^verbatim>\<open>String.fromCharCode\<close> on a list of bytes, and
  \<^verbatim>\<open>Uint8Array.from(s, c => c.charCodeAt(0))\<close>.
\<close>

definition fromCharCode :: "byte list \<Rightarrow> string" where
  "fromCharCode bs = map (\<lambda>b. char_of (unat b)) bs"

definition charCodes :: "string \<Rightarrow> byte list" where
  "charCodes s = map (\<lambda>c. of_nat (of_char c)) s"

text \<open>
  The source calls it with a spread, \<^verbatim>\<open>String.fromCharCode(...bytes)\<close>: every byte
  is one argument of the call, and the engine throws \<^verbatim>\<open>RangeError\<close> when there are
  more than it takes. The limit differs between engines; it is the parameter
  \<open>max_args\<close>.
\<close>

definition fromCharCode_spread :: "nat \<Rightarrow> byte list \<Rightarrow> js_error + string" where
  "fromCharCode_spread max_args bs =
     (if max_args < length bs then Inl RangeError else Inr (fromCharCode bs))"

subsection \<open>utils/supabaseStorage.ts\<close>

text \<open>
  A row of the table \<^verbatim>\<open>encrypted_files\<close> with the columns of the migration
  (\<^verbatim>\<open>updated_at\<close> is never read). There is no column for the tag and none for the
  checksum. Column values come back as they were inserted.
\<close>

record file_row =
  col_id :: string
  col_user_id :: string
  col_filename :: string
  col_file_size :: nat
  col_mime_type :: string
  col_encrypted_data :: string
  col_iv :: string
  col_salt :: string
  col_created_at :: int

text \<open>The datastore: who is signed in, and the table.\<close>

record supabase =
  auth_user :: "string option"
  encrypted_files :: "file_row list"

text \<open>
  What the signed-in user may read: the rows they own (the row-level policy of the table
  and the owner's part of the view \<^verbatim>\<open>accessible_files\<close>; shares are not modelled).
\<close>

definition visible_rows :: "supabase \<Rightarrow> file_row list" where
  "visible_rows sb =
     (case auth_user sb of
        None \<Rightarrow> []
      | Some u \<Rightarrow> filter (\<lambda>row. col_user_id row = u) (encrypted_files sb))"

text \<open>\<^verbatim>\<open>.single()\<close>: exactly one row, or the error code \<^verbatim>\<open>PGRST116\<close>.\<close>

definition single :: "file_row list \<Rightarrow> string + file_row" where
  "single rows = (case rows of [row] \<Rightarrow> Inr row | _ \<Rightarrow> Inl ''PGRST116'')"

text \<open>\<^verbatim>\<open>.insert(row)\<close>: the primary key must be new (error code \<^verbatim>\<open>23505\<close>).\<close>

definition insert_row :: "supabase \<Rightarrow> file_row \<Rightarrow> string + supabase" where
  "insert_row sb row =
     (if col_id row \<in> set (map col_id (encrypted_files sb)) then Inl ''23505''
      else Inr (sb\<lparr> encrypted_files := encrypted_files sb @ [row] \<rparr>))"

text \<open>
  \<^verbatim>\<open>storeEncryptedFileInDB\<close>. \<open>new_id\<close> and \<open>db_now\<close> are the defaults the
  database fills in (\<^verbatim>\<open>gen_random_uuid()\<close>, \<^verbatim>\<open>now()\<close>). The ciphertext, the
  IV and the salt are turned into strings, in this order and before anything is inserted,
  so a \<^verbatim>\<open>RangeError\<close> of a spread leaves the table as it was. Only these three are
  encoded and inserted, with the file name and size.
\<close>

definition storeEncryptedFileInDB ::
  "supabase \<Rightarrow> nat \<Rightarrow> string \<Rightarrow> int \<Rightarrow> EncryptedFile \<Rightarrow> js_error + (string \<times> supabase)" where
  "storeEncryptedFileInDB sb max_args new_id db_now encryptedFile =
     (case auth_user sb of
        None \<Rightarrow> Inl (Error ''User not authenticated'')
      | Some user \<Rightarrow>
          (case fromCharCode_spread max_args (encryptedData encryptedFile) of
             Inl e \<Rightarrow> Inl e
           | Inr encryptedDataStr \<Rightarrow>
               (case fromCharCode_spread max_args (iv encryptedFile) of
                  Inl e \<Rightarrow> Inl e
                | Inr ivStr \<Rightarrow>
                    (case fromCharCode_spread max_args (salt encryptedFile) of
                       Inl e \<Rightarrow> Inl e
                     | Inr saltStr \<Rightarrow>
                         (let encryptedDataB64 = btoa encryptedDataStr;
                              ivB64 = btoa ivStr;
                              saltB64 = btoa saltStr
                          in case insert_row sb
                                    \<lparr> col_id = new_id,
                                      col_user_id = user,
                                      col_filename = filename encryptedFile,
                                      col_file_size = originalSize encryptedFile,
                                      col_mime_type = ''application/octet-stream'',
                                      col_encrypted_data = encryptedDataB64,
                                      col_iv = ivB64,
                                      col_salt = saltB64,
                                      col_created_at = db_now \<rparr> of
                               Inl error \<Rightarrow> Inl (Error ''Failed to store encrypted file'')
                             | Inr sb' \<Rightarrow> Inr (new_id, sb'))))))"

text \<open>The three \<^verbatim>\<open>atob\<close> decodings of a row's binary columns, in the source's order.\<close>

definition decode_columns ::
  "file_row \<Rightarrow> js_error + (byte list \<times> byte list \<times> byte list)" where
  "decode_columns row =
     (case atob (col_encrypted_data row) of
        None \<Rightarrow> Inl InvalidCharacterError
      | Some d \<Rightarrow>
          (case atob (col_iv row) of
             None \<Rightarrow> Inl InvalidCharacterError
           | Some i \<Rightarrow>
               (case atob (col_salt row) of
                  None \<Rightarrow> Inl InvalidCharacterError
                | Some s \<Rightarrow> Inr (charCodes d, charCodes i, charCodes s))))"

text \<open>
  \<^verbatim>\<open>getEncryptedFileFromDB\<close>: the row from the view; when its
  \<^verbatim>\<open>encrypted_data\<close> is falsy (the empty string) the three columns are read from the
  table instead. The tag is sixteen zero bytes and the checksum the empty string, whatever
  was stored.
\<close>

definition getEncryptedFileFromDB :: "supabase \<Rightarrow> string \<Rightarrow> js_error + EncryptedFile option" where
  "getEncryptedFileFromDB sb fileId =
     (case single (filter (\<lambda>row. col_id row = fileId) (visible_rows sb)) of
        Inl code \<Rightarrow>
          (if code = ''PGRST116'' then Inr None
           else Inl (Error ''Failed to fetch encrypted file''))
      | Inr accessibleFile \<Rightarrow>
          (case (if col_encrypted_data accessibleFile \<noteq> []
                 then decode_columns accessibleFile
                 else (case single (filter (\<lambda>row. col_id row = fileId) (visible_rows sb)) of
                         Inl fileError \<Rightarrow> Inl (Error ''Failed to fetch encrypted file data'')
                       | Inr fileData \<Rightarrow> decode_columns fileData)) of
             Inl e \<Rightarrow> Inl e
           | Inr (data, nonce, slt) \<Rightarrow>
               Inr (Some \<lparr> encryptedData = data,
                           iv = nonce,
                           salt = slt,
                           authTag = replicate 16 0,
                           filename = col_filename accessibleFile,
                           originalSize = col_file_size accessibleFile,
                           timestamp = col_created_at accessibleFile,
                           checksum = [] \<rparr>)))"

text \<open>
  The upload followed by the download of the components: the blob is stored, then read
  back under the identifier the store returned.
\<close>

definition store_and_reload ::
  "supabase \<Rightarrow> nat \<Rightarrow> string \<Rightarrow> int \<Rightarrow> EncryptedFile \<Rightarrow> js_error + EncryptedFile option" where
  "store_and_reload sb max_args new_id db_now encryptedFile =
     (case storeEncryptedFileInDB sb max_args new_id db_now encryptedFile of
        Inl e \<Rightarrow> Inl e
      | Inr (fileId, sb') \<Rightarrow> getEncryptedFileFromDB sb' fileId)"

text \<open>The blob a call of \<open>encryptFile\<close> resolved to, if it did.\<close>

definition sealed :: "(js_error + EncryptedFile) \<times> rng \<Rightarrow> EncryptedFile option" where
  "sealed res = (case fst res of Inl e \<Rightarrow> None | Inr b \<Rightarrow> Some b)"

subsection \<open>What the theorems assume of the platform\<close>

text \<open>
  AES-GCM opens what it sealed, under the same key, nonce and tag length.
\<close>

definition aead_correct :: "platform \<Rightarrow> bool" where
  "aead_correct pf =
     (\<forall>k n p. aes_gcm_decrypt pf k n 128 (aes_gcm_encrypt pf k n 128 p) = Some p)"

text \<open>
  With a tag of 128 bits the sealed output is the plaintext's length plus 16 bytes, and
  what opens is 16 bytes shorter than what was given.
\<close>

definition aead_lengths :: "platform \<Rightarrow> bool" where
  "aead_lengths pf =
     ((\<forall>k n p. length (aes_gcm_encrypt pf k n 128 p) = length p + 16) \<and>
      (\<forall>k n c p. aes_gcm_decrypt pf k n 128 c = Some p \<longrightarrow> length c = length p + 16))"

text \<open>
  The derived key has the number of bits that was asked for (a multiple of eight).
\<close>

definition pbkdf2_key_length :: "platform \<Rightarrow> bool" where
  "pbkdf2_key_length pf =
     (\<forall>h pw s c n. n mod 8 = 0 \<longrightarrow> 8 * length (pbkdf2 pf h pw s c n) = n)"

subsection \<open>A small platform to run the functions on\<close>

text \<open>
  A platform simple enough to evaluate by hand: the key is one byte (the sum of the
  password's and the salt's bytes) repeated, sealing appends that byte as the tag, the
  digest is the sum of the bytes repeated 32 times. It has the three properties above.
\<close>

definition key_byte :: "CryptoKey \<Rightarrow> byte" where
  "key_byte k = (case k of [] \<Rightarrow> 0 | b # _ \<Rightarrow> b)"

definition demo_platform :: platform where
  "demo_platform =
     \<lparr> text_encode = map (\<lambda>c. of_nat (of_char c)),
       pbkdf2 = (\<lambda>h pw s c n. replicate (n div 8) (sum_list pw + sum_list s + 1)),
       aes_gcm_encrypt = (\<lambda>k n t p. p @ replicate (t div 8) (key_byte k)),
       aes_gcm_decrypt = (\<lambda>k n t c.
          if t div 8 \<le> length c \<and> drop (length c - t div 8) c = replicate (t div 8) (key_byte k)
          then Some (take (length c - t div 8) c) else None),
       digest = (\<lambda>h d. replicate 32 (sum_list d)) \<rparr>"

definition demo_rng :: rng where
  "demo_rng i = of_nat i"

definition demo_file :: File where
  "demo_file = \<lparr> name = ''a.txt'', content = [1, 2, 3], mime_type = ''text/plain'' \<rparr>"

text \<open>What \<open>encryptFile\<close> returns for that file under the password \<^verbatim>\<open>pw\<close>.\<close>

definition demo_blob :: EncryptedFile where
  "demo_blob =
     \<lparr> encryptedData = [1, 2, 3],
       iv = [32, 33, 34, 35, 36, 37, 38, 39, 40, 41, 42, 43],
       salt = [0, 1, 2, 3, 4, 5, 6, 7, 8, 9, 10, 11, 12, 13, 14, 15, 16, 17, 18, 19,
               20, 21, 22, 23, 24, 25, 26, 27, 28, 29, 30, 31],
       authTag = replicate 16 216,
       filename = ''a.txt'',
       originalSize = 3,
       timestamp = 0,
       checksum = ''0606060606060606060606060606060606060606060606060606060606060606'' \<rparr>"

text \<open>A second random stream, the empty file, and a datastore with a signed-in user.\<close>

definition other_rng :: rng where
  "other_rng i = of_nat i + 100"

definition empty_file :: File where
  "empty_file = \<lparr> name = ''empty.bin'', content = [], mime_type = ''text/plain'' \<rparr>"

definition demo_db :: supabase where
  "demo_db = \<lparr> auth_user = Some ''user-1'', encrypted_files = [] \<rparr>"

text \<open>
  A platform with the sizes of the browser's: the key is the password's bytes followed by
  the salt's, cut or filled with zeros to the length asked for, so that every key of 32
  bytes is derived from some password; the tag is the first bytes of the key, cut or
  filled to the tag length. It has the three properties above as well.
\<close>

definition fit :: "nat \<Rightarrow> byte list \<Rightarrow> byte list" where
  "fit n bs = take n (bs @ replicate n 0)"

definition prefix_tag_platform :: platform where
  "prefix_tag_platform =
     \<lparr> text_encode = charCodes,
       pbkdf2 = (\<lambda>h pw s c n. fit (n div 8) (pw @ s)),
       aes_gcm_encrypt = (\<lambda>k n t p. p @ fit (t div 8) k),
       aes_gcm_decrypt = (\<lambda>k n t c.
          if t div 8 \<le> length c \<and> drop (length c - t div 8) c = fit (t div 8) k
          then Some (take (length c - t div 8) c) else None),
       digest = (\<lambda>h d. replicate 32 (sum_list d)) \<rparr>"

section \<open>Theorems\<close>

subsection \<open>Slicing\<close>

lemma slice_split: "slice xs 0 (- 16) @ slice_from xs (- 16) = xs"
  by (simp add: slice_def slice_from_def rel_index_def Let_def)

subsection \<open>Base64 decodes what it encoded\<close>

lemma of_char_b64_char:
  "n < 64 \<Longrightarrow> (of_char (b64_char n) :: nat) =
     (if n < 26 then 65 + n else if n < 52 then 71 + n else if n < 62 then n - 4
      else if n = 62 then 43 else 47)"
  by (simp add: b64_char_def)

lemma b64_index_char: "n < 64 \<Longrightarrow> b64_index (b64_char n) = Some n"
  by (auto simp add: b64_index_def b64_char_def Let_def)

lemma b64_char_not_pad: "n < 64 \<Longrightarrow> b64_char n \<noteq> CHR ''=''"
proof
  assume n: "n < 64" and eq: "b64_char n = CHR ''=''"
  have "(of_char (b64_char n) :: nat) = 61" by (simp add: eq)
  with n show False by (simp add: of_char_b64_char split: if_splits)
qed

lemma b64_encode_split:
  "b64_encode bs = map b64_char (b64_sextets bs) @ replicate (b64_pad bs) (CHR ''='')"
  by (induction bs rule: b64_encode.induct) (simp_all add: b64_pad_def numeral_2_eq_2)

lemma b64_char_not_ws: "n < 64 \<Longrightarrow> \<not> ascii_whitespace (b64_char n)"
  unfolding ascii_whitespace_def by (simp add: of_char_b64_char) arith

lemma b64_sextets_bound: "\<forall>x\<in>set bs. x < 256 \<Longrightarrow> \<forall>s\<in>set (b64_sextets bs). s < 64"
  by (induction bs rule: b64_sextets.induct) auto

lemma b64_sextets_length: "(length (b64_sextets bs) + b64_pad bs) mod 4 = 0"
  by (induction bs rule: b64_sextets.induct) (simp_all add: b64_pad_def)

lemma b64_sextets_length1: "length (b64_sextets bs) mod 4 \<noteq> 1"
  by (induction bs rule: b64_sextets.induct) simp_all

lemma b64_decode_sextets: "\<forall>x\<in>set bs. x < 256 \<Longrightarrow> b64_decode (b64_sextets bs) = bs"
  by (induction bs rule: b64_sextets.induct) auto

lemma b64_pad_le: "b64_pad bs \<le> 2"
  by (simp add: b64_pad_def)

lemma strip_padding_encoded:
  assumes "\<forall>s\<in>set ss. s < 64" and "k \<le> 2" and "(length ss + k) mod 4 = 0"
  shows "strip_padding (map b64_char ss @ replicate k (CHR ''='')) = map b64_char ss"
proof -
  consider "k = 0" | "k = 1" | "k = 2" using assms(2) by arith
  then show ?thesis
  proof cases
    case 1
    show ?thesis
    proof (cases ss rule: rev_cases)
      case Nil
      with 1 show ?thesis by (simp add: strip_padding_def)
    next
      case (snoc ys y)
      then have "b64_char y \<noteq> CHR ''=''" using assms(1) by (simp add: b64_char_not_pad)
      with 1 snoc show ?thesis by (auto simp add: strip_padding_def)
    qed
  next
    case 2
    then have "ss \<noteq> []" using assms(3) by auto
    then obtain ys y where ss: "ss = ys @ [y]" by (cases ss rule: rev_cases) auto
    then have "b64_char y \<noteq> CHR ''=''" using assms(1) by (simp add: b64_char_not_pad)
    with 2 ss assms(3) show ?thesis by (auto simp add: strip_padding_def)
  next
    case 3
    with assms(3) show ?thesis by (simp add: strip_padding_def numeral_2_eq_2)
  qed
qed

lemma those_map_b64_index:
  "\<forall>s\<in>set ss. s < 64 \<Longrightarrow> those (map b64_index (map b64_char ss)) = Some ss"
  by (induction ss) (simp_all add: b64_index_char)

lemma filter_ws_encoded:
  assumes "\<forall>s\<in>set ss. s < 64"
  shows "filter (\<lambda>c. \<not> ascii_whitespace c) (map b64_char ss @ replicate k (CHR ''=''))
         = map b64_char ss @ replicate k (CHR ''='')"
proof -
  have "\<not> ascii_whitespace (CHR ''='')" by (simp add: ascii_whitespace_def)
  moreover have "\<forall>c\<in>set (map b64_char ss). \<not> ascii_whitespace c"
    using assms by (auto simp add: b64_char_not_ws)
  ultimately have "\<forall>c\<in>set (map b64_char ss @ replicate k (CHR ''='')). \<not> ascii_whitespace c"
    by auto
  then show ?thesis by (simp only: filter_id_conv)
qed

lemma atob_btoa: "atob (btoa s) = Some s"
proof -
  let ?bs = "map of_char s :: nat list"
  let ?ss = "b64_sextets ?bs"
  have b: "\<forall>x\<in>set ?bs. x < 256" by auto
  have ss: "\<forall>x\<in>set ?ss. x < 64" using b by (rule b64_sextets_bound)
  have enc: "btoa s = map b64_char ?ss @ replicate (b64_pad ?bs) (CHR ''='')"
    by (simp only: btoa_def b64_encode_split)
  have flt: "filter (\<lambda>c. \<not> ascii_whitespace c) (btoa s) = btoa s"
    unfolding enc using ss by (rule filter_ws_encoded)
  have strip: "strip_padding (btoa s) = map b64_char ?ss"
    unfolding enc using ss b64_pad_le b64_sextets_length by (rule strip_padding_encoded)
  have len: "length (map b64_char ?ss) mod 4 \<noteq> 1"
    by (simp only: length_map b64_sextets_length1 not_False_eq_True)
  have idx: "those (map b64_index (map b64_char ?ss)) = Some ?ss"
    using ss by (rule those_map_b64_index)
  have dec: "map char_of (b64_decode ?ss) = s"
    using b by (simp add: b64_decode_sextets comp_def)
  show ?thesis
    unfolding atob_def flt strip Let_def using len idx dec by simp
qed

subsection \<open>Slices of the sealed output\<close>

lemma rel_index_last: "rel_index len (- 16) = len - 16"
  unfolding rel_index_def by simp

lemma rel_index_bounds: "rel_index len 0 = 0" "rel_index len (int len) = len"
  by (simp_all add: rel_index_def)

lemma slice_drop_last: "slice xs 0 (- 16) = take (length xs - 16) xs"
  by (simp add: slice_def rel_index_last rel_index_bounds)

lemma slice_from_last: "slice_from xs (- 16) = drop (length xs - 16) xs"
  by (simp add: slice_def slice_from_def rel_index_last rel_index_bounds)

subsection \<open>Bytes and characters\<close>

lemma charCode_fromCharCode: "of_nat (unat b mod 256) = (b :: byte)"
proof -
  have "unat b < 2 ^ LENGTH(8)" by (rule unsigned_less)
  then have "unat b mod 256 = unat b" by simp
  then show ?thesis by simp
qed

lemma charCodes_fromCharCode: "charCodes (fromCharCode bs) = bs"
  by (simp add: charCodes_def fromCharCode_def comp_def charCode_fromCharCode)

subsection \<open>The steps of \<open>encryptFile\<close> and \<open>decryptFile\<close>\<close>

lemma deriveKey_eq:
  "deriveKey pf password slt = Inr (pbkdf2 pf SHA_256 (text_encode pf password) slt 100000 256)"
  by (simp add: deriveKey_def)

lemma encryptFile_eq:
  "encryptFile pf r now file password =
     (Inr \<lparr> encryptedData =
               slice (aes_gcm_encrypt pf
                        (pbkdf2 pf SHA_256 (text_encode pf password) (map r [0..<32]) 100000 256)
                        (map (\<lambda>i. r (i + 32)) [0..<12]) 128 (content file)) 0 (- 16),
             iv = map (\<lambda>i. r (i + 32)) [0..<12],
             salt = map r [0..<32],
             authTag =
               slice_from (aes_gcm_encrypt pf
                        (pbkdf2 pf SHA_256 (text_encode pf password) (map r [0..<32]) 100000 256)
                        (map (\<lambda>i. r (i + 32)) [0..<12]) 128 (content file)) (- 16),
             filename = name file,
             originalSize = length (content file),
             timestamp = now,
             checksum = calculateChecksum pf (content file) \<rparr>,
      (\<lambda>i. r (i + 44)))"
  by (simp add: encryptFile_def generateSalt_def generateIV_def getRandomValues_def
      deriveKey_eq size_of_def Let_def add.assoc)

lemma decryptFile_failure_message:
  "decryptFile pf b w = Inl e \<Longrightarrow>
   e = Error ''Failed to decrypt file - incorrect password or corrupted data''"
  by (auto simp add: decryptFile_def deriveKey_eq Let_def split: sum.splits)

lemma decryptFile_success:
  "decryptFile pf b w = Inr f \<Longrightarrow>
   aes_gcm_decrypt pf (pbkdf2 pf SHA_256 (text_encode pf w) (salt b) 100000 256) (iv b) 128
     (encryptedData b @ authTag b) = Some (content f) \<and>
   calculateChecksum pf (content f) = checksum b \<and>
   name f = filename b \<and> mime_type f = ''application/octet-stream''"
  by (auto simp add: decryptFile_def decryptFile_try_def deriveKey_eq Let_def
      split: sum.splits option.splits if_splits)

subsection \<open>The small platform has the assumed properties\<close>

lemma key_byte_replicate: "0 < n \<Longrightarrow> key_byte (replicate n b) = b"
  by (cases n) (simp_all add: key_byte_def)

lemma demo_correct: "aead_correct demo_platform"
  by (simp add: aead_correct_def demo_platform_def)

lemma demo_lengths: "aead_lengths demo_platform"
  by (auto simp add: aead_lengths_def demo_platform_def split: if_splits)

lemma length_fit: "length (fit n bs) = n"
  by (simp add: fit_def)

lemma fit_exact: "length bs = n \<Longrightarrow> fit n (bs @ cs) = bs"
  by (simp add: fit_def)

lemma prefix_tag_correct: "aead_correct prefix_tag_platform"
  by (simp add: aead_correct_def prefix_tag_platform_def length_fit)

lemma prefix_tag_lengths: "aead_lengths prefix_tag_platform"
  by (auto simp add: aead_lengths_def prefix_tag_platform_def length_fit split: if_splits)

lemma prefix_tag_key_length: "pbkdf2_key_length prefix_tag_platform"
  by (simp add: pbkdf2_key_length_def prefix_tag_platform_def length_fit) presburger

lemma upt_12: "[0..<12] = [0, 1, 2, 3, 4, 5, 6, 7, 8, 9, 10, 11]"
  by (simp add: upt_rec)

lemma upt_32:
  "[0..<32] = [0, 1, 2, 3, 4, 5, 6, 7, 8, 9, 10, 11, 12, 13, 14, 15, 16, 17, 18, 19,
               20, 21, 22, 23, 24, 25, 26, 27, 28, 29, 30, 31]"
  by (simp add: upt_rec)

lemma replicate_16:
  "replicate 16 x = [x, x, x, x, x, x, x, x, x, x, x, x, x, x, x, x]"
  by (simp add: numeral_eq_Suc)

lemma replicate_32:
  "replicate 32 x = [x, x, x, x, x, x, x, x, x, x, x, x, x, x, x, x,
                     x, x, x, x, x, x, x, x, x, x, x, x, x, x, x, x]"
  by (simp add: numeral_eq_Suc)

lemma demo_key_length: "pbkdf2_key_length demo_platform"
  by (simp add: pbkdf2_key_length_def demo_platform_def) presburger

lemmas demo_eval =
  demo_platform_def demo_rng_def demo_file_def key_byte_def calculateChecksum_def
  hex_byte_def hex_digit_def upt_12 upt_32 replicate_16 replicate_32

lemma demo_blob_sealed:
  "fst (encryptFile demo_platform demo_rng 0 demo_file ''pw'') = Inr demo_blob"
  by (simp add: encryptFile_eq slice_drop_last slice_from_last demo_eval demo_blob_def)

subsection \<open>Round trip\<close>

text \<open>
  C1. For every plaintext (the empty one included), file name and password, decrypting
  what \<open>encryptFile\<close> returned, with the same password, succeeds and gives back the
  bytes and the file name. The platform's AES-GCM is assumed to open what it sealed.
\<close>

theorem encrypt_decrypt_roundtrip:
  assumes "aead_correct pf"
  shows "\<exists>b. fst (encryptFile pf r now \<lparr> name = nm, content = P, mime_type = ty \<rparr> W) = Inr b \<and>
             decryptFile pf b W =
               Inr \<lparr> name = nm, content = P, mime_type = ''application/octet-stream'' \<rparr>"
proof -
  let ?key = "pbkdf2 pf SHA_256 (text_encode pf W) (map r [0..<32]) 100000 256"
  let ?nonce = "map (\<lambda>i. r (i + 32)) [0..<12]"
  let ?sealed = "aes_gcm_encrypt pf ?key ?nonce 128 P"
  have "aes_gcm_decrypt pf ?key ?nonce 128 (slice ?sealed 0 (- 16) @ slice_from ?sealed (- 16))
          = Some P"
    using assms by (simp only: slice_split aead_correct_def)
  then show ?thesis
    by (simp add: encryptFile_eq decryptFile_def decryptFile_try_def deriveKey_eq Let_def)
qed

theorem encrypt_decrypt_roundtrip_witness:
  "aead_correct demo_platform \<and>
   (\<exists>b. fst (encryptFile demo_platform demo_rng 0
               \<lparr> name = ''empty.bin'', content = [], mime_type = ''text/plain'' \<rparr> ''correcthorse1'') = Inr b \<and>
        decryptFile demo_platform b ''correcthorse1'' =
          Inr \<lparr> name = ''empty.bin'', content = [], mime_type = ''application/octet-stream'' \<rparr>)"
  using encrypt_decrypt_roundtrip [OF demo_correct, of demo_rng 0 "''empty.bin''" "[]" "''text/plain''" "''correcthorse1''"]
    demo_correct
  by simp

subsection \<open>Wrong password\<close>





text \<open>
  The platform of that example is no exception. A tag of 16 bytes cannot tell all keys of
  32 bytes apart: on every platform that opens what it sealed, adds 16 bytes when sealing,
  and derives every key of 32 bytes from some password, there are two passwords with
  different keys such that the empty file sealed under the first opens under the second.
\<close>

lemma card_byte_lists: "card {k :: byte list. length k = n} = 256 ^ n"
  using card_lists_length_eq [of "UNIV :: byte set" n] by (simp add: card_word)

lemma finite_byte_lists: "finite {k :: byte list. length k = n}"
  using finite_lists_length_eq [of "UNIV :: byte set" n] by simp

lemma two_keys_seal_alike:
  assumes "aead_lengths pf"
  shows "\<exists>k1 k2. length k1 = 32 \<and> length k2 = 32 \<and> k1 \<noteq> k2 \<and>
           aes_gcm_encrypt pf k1 n 128 [] = aes_gcm_encrypt pf k2 n 128 []"
proof -
  let ?A = "{k :: byte list. length k = 32}"
  let ?B = "{t :: byte list. length t = 16}"
  let ?f = "\<lambda>k. aes_gcm_encrypt pf k n 128 []"
  from assms have "length (?f k) = 16" for k
    unfolding aead_lengths_def by simp
  then have sub: "?f ` ?A \<subseteq> ?B" by auto
  have "(256 :: nat) ^ 16 < 256 ^ 32"
    by (rule power_strict_increasing) simp_all
  then have less: "card ?B < card ?A"
    by (simp only: card_byte_lists)
  have "\<not> inj_on ?f ?A"
  proof
    assume "inj_on ?f ?A"
    then have "card ?A \<le> card ?B"
      using sub finite_byte_lists by (rule card_inj_on_le)
    with less show False by simp
  qed
  then show ?thesis
    unfolding inj_on_def by blast
qed

lemma some_wrong_password_opens:
  assumes "aead_correct pf" and "aead_lengths pf"
    and "\<forall>k. length k = 32 \<longrightarrow> (\<exists>w. deriveKey pf w (fst (generateSalt r)) = Inr k)"
  shows "\<exists>W1 W2 b.
           deriveKey pf W1 (fst (generateSalt r)) \<noteq> deriveKey pf W2 (fst (generateSalt r)) \<and>
           fst (encryptFile pf r now \<lparr> name = nm, content = [], mime_type = ty \<rparr> W1) = Inr b \<and>
           decryptFile pf b W2 =
             Inr \<lparr> name = nm, content = [], mime_type = ''application/octet-stream'' \<rparr>"
proof -
  let ?s = "map r [0..<32]"
  let ?nonce = "map (\<lambda>i. r (i + 32)) [0..<12]"
  have s: "fst (generateSalt r) = ?s"
    by (simp add: generateSalt_def getRandomValues_def)
  from two_keys_seal_alike [OF assms(2), of ?nonce]
  obtain k1 k2 where k: "length k1 = 32" "length k2 = 32" "k1 \<noteq> k2"
    and same: "aes_gcm_encrypt pf k1 ?nonce 128 [] = aes_gcm_encrypt pf k2 ?nonce 128 []"
    by blast
  from assms(3) k obtain W1 W2 where
    W: "deriveKey pf W1 ?s = Inr k1" "deriveKey pf W2 ?s = Inr k2"
    unfolding s by blast
  then have pk: "pbkdf2 pf SHA_256 (text_encode pf W1) ?s 100000 256 = k1"
    "pbkdf2 pf SHA_256 (text_encode pf W2) ?s 100000 256 = k2"
    by (simp_all add: deriveKey_eq)
  let ?sealed = "aes_gcm_encrypt pf k1 ?nonce 128 []"
  let ?b = "\<lparr> encryptedData = slice ?sealed 0 (- 16), iv = ?nonce, salt = ?s,
               authTag = slice_from ?sealed (- 16), filename = nm, originalSize = 0,
               timestamp = now, checksum = calculateChecksum pf [] \<rparr>"
  have enc: "fst (encryptFile pf r now \<lparr> name = nm, content = [], mime_type = ty \<rparr> W1) = Inr ?b"
    by (simp add: encryptFile_eq pk)
  have "aes_gcm_decrypt pf k2 ?nonce 128 ?sealed = Some []"
    using assms(1) unfolding same aead_correct_def by simp
  then have dec: "decryptFile pf ?b W2 =
      Inr \<lparr> name = nm, content = [], mime_type = ''application/octet-stream'' \<rparr>"
    by (simp add: decryptFile_def decryptFile_try_def deriveKey_eq pk slice_split)
  from W k(3) have "deriveKey pf W1 (fst (generateSalt r)) \<noteq> deriveKey pf W2 (fst (generateSalt r))"
    by (simp add: s)
  with enc dec show ?thesis by blast
qed

text \<open>\<open>prefix_tag_platform\<close> is such a platform.\<close>

lemma prefix_tag_derives_every_key:
  "length k = 32 \<Longrightarrow> \<exists>w. deriveKey prefix_tag_platform w s = Inr k"
  by (rule exI [of _ "fromCharCode k"])
    (simp add: deriveKey_eq prefix_tag_platform_def charCodes_fromCharCode fit_exact)

subsection \<open>The checksum comparison\<close>

text \<open>
  When the tag verifies and the recomputed checksum differs from the stored one, the
  \<^verbatim>\<open>try\<close> block throws the integrity message, and \<open>decryptFile\<close> replaces it by
  the message of every other failure.
\<close>

lemma checksum_mismatch_outcome:
  assumes "aes_gcm_decrypt pf (pbkdf2 pf SHA_256 (text_encode pf w) (salt b) 100000 256)
             (iv b) 128 (encryptedData b @ authTag b) = Some p"
    and "calculateChecksum pf p \<noteq> checksum b"
  shows "decryptFile_try pf b (pbkdf2 pf SHA_256 (text_encode pf w) (salt b) 100000 256)
           (encryptedData b @ authTag b)
         = Inl (Error ''File integrity verification failed - file may be corrupted'')"
    and "decryptFile pf b w =
           Inl (Error ''Failed to decrypt file - incorrect password or corrupted data'')"
  using assms by (simp_all add: decryptFile_def decryptFile_try_def deriveKey_eq)

text \<open>
  C3. The claim asks for an integrity failure that can be told from an authentication
  failure. On the blob \<open>demo_blob\<close> with its checksum replaced, the tag verifies and
  the \<^verbatim>\<open>try\<close> block throws the integrity message; \<open>decryptFile\<close> returns the
  same value as for the blob with its tag replaced.
\<close>

theorem integrity_failure_is_masked:
  "decryptFile_try demo_platform (demo_blob\<lparr> checksum := ''00'' \<rparr>) (replicate 32 216)
       (encryptedData demo_blob @ authTag demo_blob)
     = Inl (Error ''File integrity verification failed - file may be corrupted'') \<and>
   decryptFile demo_platform (demo_blob\<lparr> checksum := ''00'' \<rparr>) ''pw''
     = Inl (Error ''Failed to decrypt file - incorrect password or corrupted data'') \<and>
   decryptFile demo_platform (demo_blob\<lparr> authTag := replicate 16 0 \<rparr>) ''pw''
     = Inl (Error ''Failed to decrypt file - incorrect password or corrupted data'')"
  by (simp add: decryptFile_def decryptFile_try_def deriveKey_eq demo_eval demo_blob_def)

subsection \<open>Key derivation\<close>

text \<open>
  C5. \<open>deriveKey\<close> is PBKDF2 with SHA-256 and 100000 iterations over the encoded
  password and the salt, for a key of 256 bits, and nothing else: two calls with the same
  password and salt give the same key. The platform is assumed to return a key of the
  length asked for.
\<close>

theorem deriveKey_deterministic_pbkdf2:
  assumes "pbkdf2_key_length pf"
  shows "\<exists>k. deriveKey pf password slt = Inr k \<and>
             k = pbkdf2 pf SHA_256 (text_encode pf password) slt 100000 256 \<and>
             8 * length k = 256 \<and>
             (\<forall>k'. deriveKey pf password slt = Inr k' \<longrightarrow> k' = k)"
proof -
  let ?k = "pbkdf2 pf SHA_256 (text_encode pf password) slt 100000 256"
  have "(256 :: nat) mod 8 = 0" by simp
  then have "8 * length ?k = 256"
    by (rule assms [unfolded pbkdf2_key_length_def, rule_format])
  then show ?thesis by (simp add: deriveKey_eq)
qed

theorem deriveKey_deterministic_pbkdf2_witness:
  "pbkdf2_key_length demo_platform \<and>
   (\<exists>k. deriveKey demo_platform ''pw'' (salt demo_blob) = Inr k \<and>
        k = pbkdf2 demo_platform SHA_256 (text_encode demo_platform ''pw'') (salt demo_blob)
              100000 256 \<and>
        8 * length k = 256 \<and>
        (\<forall>k'. deriveKey demo_platform ''pw'' (salt demo_blob) = Inr k' \<longrightarrow> k' = k))"
  by (rule conjI [OF demo_key_length deriveKey_deterministic_pbkdf2 [OF demo_key_length]])

text \<open>
  C6, as the code has it. \<open>deriveKey\<close> checks nothing: for every password and every
  salt, of any length, it returns a key.
\<close>

theorem deriveKey_never_fails:
  "\<exists>k. deriveKey pf password slt = Inr k"
  by (simp add: deriveKey_eq)

text \<open>
  C6 as stated fails: the empty salt, which is not 32 bytes long, is not rejected.
\<close>

theorem deriveKey_accepts_empty_salt:
  "length ([] :: byte list) \<noteq> 32 \<and>
   deriveKey demo_platform ''pw'' [] = Inr (replicate 32 232)"
  by (simp add: deriveKey_eq demo_eval)

subsection \<open>Ciphertext and tag\<close>

text \<open>
  C7. The ciphertext of the blob is as long as the plaintext, the tag is 16 bytes, and the
  two are the sealed output without its last 16 bytes and those last 16 bytes. The
  platform's AES-GCM is assumed to add 16 bytes to the plaintext's length.
\<close>

theorem ciphertext_and_tag_lengths:
  assumes "aead_lengths pf"
  shows "\<exists>b key.
           fst (encryptFile pf r now \<lparr> name = nm, content = P, mime_type = ty \<rparr> W) = Inr b \<and>
           length (encryptedData b) = length P \<and>
           length (authTag b) = 16 \<and>
           deriveKey pf W (salt b) = Inr key \<and>
           encryptedData b =
             take (length (aes_gcm_encrypt pf key (iv b) 128 P) - 16)
               (aes_gcm_encrypt pf key (iv b) 128 P) \<and>
           authTag b =
             drop (length (aes_gcm_encrypt pf key (iv b) 128 P) - 16)
               (aes_gcm_encrypt pf key (iv b) 128 P)"
proof -
  let ?key = "pbkdf2 pf SHA_256 (text_encode pf W) (map r [0..<32]) 100000 256"
  let ?nonce = "map (\<lambda>i. r (i + 32)) [0..<12]"
  let ?sealed = "aes_gcm_encrypt pf ?key ?nonce 128 P"
  from assms have len: "length ?sealed = length P + 16"
    unfolding aead_lengths_def by blast
  show ?thesis
    by (simp add: encryptFile_eq slice_drop_last slice_from_last deriveKey_eq len)
qed

theorem ciphertext_and_tag_lengths_witness:
  "aead_lengths demo_platform \<and>
   (\<exists>b key.
      fst (encryptFile demo_platform demo_rng 0
             \<lparr> name = ''a.txt'', content = [1, 2, 3], mime_type = ''text/plain'' \<rparr> ''pw'') = Inr b \<and>
      length (encryptedData b) = length [1 :: byte, 2, 3] \<and>
      length (authTag b) = 16 \<and>
      deriveKey demo_platform ''pw'' (salt b) = Inr key \<and>
      encryptedData b =
        take (length (aes_gcm_encrypt demo_platform key (iv b) 128 [1, 2, 3]) - 16)
          (aes_gcm_encrypt demo_platform key (iv b) 128 [1, 2, 3]) \<and>
      authTag b =
        drop (length (aes_gcm_encrypt demo_platform key (iv b) 128 [1, 2, 3]) - 16)
          (aes_gcm_encrypt demo_platform key (iv b) 128 [1, 2, 3]))"
  by (rule conjI [OF demo_lengths ciphertext_and_tag_lengths [OF demo_lengths]])

subsection \<open>Salt and nonce\<close>

text \<open>
  C8, as the code has it. Every call takes the next 32 bytes of the random source as the
  salt and the 12 bytes after them as the nonce, and leaves the source 44 bytes further;
  neither depends on the file or the password. Two calls on the same plaintext and
  password have different salts exactly when their salt draws differ, and different
  nonces exactly when their nonce draws differ.
\<close>

theorem salt_and_nonce_are_fresh_draws:
  "\<exists>b b'. encryptFile pf r now file W = (Inr b, (\<lambda>i. r (i + 44))) \<and>
           encryptFile pf r' now' file W = (Inr b', (\<lambda>i. r' (i + 44))) \<and>
           salt b = map r [0..<32] \<and> length (salt b) = 32 \<and>
           iv b = map (\<lambda>i. r (i + 32)) [0..<12] \<and> length (iv b) = 12 \<and>
           (salt b \<noteq> salt b' \<longleftrightarrow> (\<exists>i<32. r i \<noteq> r' i)) \<and>
           (iv b \<noteq> iv b' \<longleftrightarrow> (\<exists>i<12. r (i + 32) \<noteq> r' (i + 32)))"
  by (simp add: encryptFile_eq) auto

theorem salt_and_nonce_are_fresh_draws_witness:
  "\<exists>b b'. encryptFile demo_platform demo_rng 0 demo_file ''pw'' = (Inr b, (\<lambda>i. demo_rng (i + 44))) \<and>
           encryptFile demo_platform other_rng 1 demo_file ''pw'' = (Inr b', (\<lambda>i. other_rng (i + 44))) \<and>
           salt b = map demo_rng [0..<32] \<and> length (salt b) = 32 \<and>
           iv b = map (\<lambda>i. demo_rng (i + 32)) [0..<12] \<and> length (iv b) = 12 \<and>
           (salt b \<noteq> salt b' \<longleftrightarrow> (\<exists>i<32. demo_rng i \<noteq> other_rng i)) \<and>
           (iv b \<noteq> iv b' \<longleftrightarrow> (\<exists>i<12. demo_rng (i + 32) \<noteq> other_rng (i + 32)))"
  by (rule salt_and_nonce_are_fresh_draws)

text \<open>
  C8 as stated fails on the ciphertexts: two encryptions of the empty file with the same
  password and different random draws have different salts and nonces, and the same
  (empty) ciphertext.
\<close>

theorem empty_file_same_ciphertext:
  "map_option salt (sealed (encryptFile demo_platform demo_rng 0 empty_file ''pw''))
     \<noteq> map_option salt (sealed (encryptFile demo_platform other_rng 1 empty_file ''pw'')) \<and>
   map_option iv (sealed (encryptFile demo_platform demo_rng 0 empty_file ''pw''))
     \<noteq> map_option iv (sealed (encryptFile demo_platform other_rng 1 empty_file ''pw'')) \<and>
   map_option encryptedData (sealed (encryptFile demo_platform demo_rng 0 empty_file ''pw''))
     = Some [] \<and>
   map_option encryptedData (sealed (encryptFile demo_platform other_rng 1 empty_file ''pw''))
     = Some []"
  by (simp add: sealed_def encryptFile_eq slice_drop_last empty_file_def other_rng_def
      demo_platform_def demo_rng_def upt_12 upt_32)

subsection \<open>Size\<close>

text \<open>
  C9, as the code has it. For a blob that \<open>encryptFile\<close> produced, every successful
  \<open>decryptFile\<close> returns a plaintext whose length is the blob's \<open>originalSize\<close>.
  The platform's AES-GCM is assumed to add, and to remove, exactly 16 bytes.
\<close>

theorem originalSize_of_sealed_blob:
  assumes "aead_lengths pf"
    and "fst (encryptFile pf r now \<lparr> name = nm, content = P, mime_type = ty \<rparr> W1) = Inr b"
    and "decryptFile pf b W2 = Inr f"
  shows "originalSize b = length (content f)"
proof -
  let ?key = "pbkdf2 pf SHA_256 (text_encode pf W1) (map r [0..<32]) 100000 256"
  let ?nonce = "map (\<lambda>i. r (i + 32)) [0..<12]"
  let ?sealed = "aes_gcm_encrypt pf ?key ?nonce 128 P"
  from assms(2) have b: "originalSize b = length P" "encryptedData b @ authTag b = ?sealed"
    by (auto simp add: encryptFile_eq slice_split)
  from assms(1) have len: "length ?sealed = length P + 16"
    unfolding aead_lengths_def by blast
  from decryptFile_success [OF assms(3)]
  obtain k n where "aes_gcm_decrypt pf k n 128 (encryptedData b @ authTag b) = Some (content f)"
    by blast
  with assms(1) have "length (encryptedData b @ authTag b) = length (content f) + 16"
    unfolding aead_lengths_def by blast
  with b len show ?thesis by simp
qed

theorem originalSize_of_sealed_blob_witness:
  "aead_lengths demo_platform \<and>
   fst (encryptFile demo_platform demo_rng 0 demo_file ''pw'') = Inr demo_blob \<and>
   decryptFile demo_platform demo_blob ''pw'' =
     Inr \<lparr> name = ''a.txt'', content = [1, 2, 3], mime_type = ''application/octet-stream'' \<rparr> \<and>
   originalSize demo_blob = length [1 :: byte, 2, 3]"
proof -
  have dec: "decryptFile demo_platform demo_blob ''pw'' =
     Inr \<lparr> name = ''a.txt'', content = [1, 2, 3], mime_type = ''application/octet-stream'' \<rparr>"
    by (simp add: decryptFile_def decryptFile_try_def deriveKey_eq demo_eval demo_blob_def)
  from originalSize_of_sealed_blob [OF demo_lengths, of demo_rng 0 "''a.txt''" "[1, 2, 3]"
      "''text/plain''" "''pw''" demo_blob "''pw''", OF _ dec]
    demo_lengths demo_blob_sealed dec
  show ?thesis by (simp add: demo_file_def)
qed

text \<open>
  C9 as stated fails: \<open>decryptFile\<close> never reads \<open>originalSize\<close>, so a blob whose
  \<open>originalSize\<close> is 999 decrypts to its three bytes.
\<close>

theorem decrypt_ignores_originalSize:
  "decryptFile demo_platform (demo_blob\<lparr> originalSize := 999 \<rparr>) ''pw'' =
     Inr \<lparr> name = ''a.txt'', content = [1, 2, 3], mime_type = ''application/octet-stream'' \<rparr> \<and>
   originalSize (demo_blob\<lparr> originalSize := 999 \<rparr>) \<noteq> length [1 :: byte, 2, 3]"
  by (simp add: decryptFile_def decryptFile_try_def deriveKey_eq demo_eval demo_blob_def)

subsection \<open>MIME type\<close>

text \<open>
  C10. A file that \<open>decryptFile\<close> returns has the type
  \<^verbatim>\<open>application/octet-stream\<close>; the type of the file that was encrypted is in no
  field of the blob, so \<open>encryptFile\<close> returns the same for every type.
\<close>

theorem decrypted_mime_type:
  assumes "decryptFile pf b w = Inr f"
  shows "mime_type f = ''application/octet-stream'' \<and>
         (\<forall>r now file W ty.
            encryptFile pf r now (file\<lparr> mime_type := ty \<rparr>) W = encryptFile pf r now file W)"
  using decryptFile_success [OF assms] by (simp add: encryptFile_eq)

theorem decrypted_mime_type_witness:
  "decryptFile demo_platform demo_blob ''pw'' =
     Inr \<lparr> name = ''a.txt'', content = [1, 2, 3], mime_type = ''application/octet-stream'' \<rparr> \<and>
   mime_type demo_file = ''text/plain'' \<and>
   fst (encryptFile demo_platform demo_rng 0 demo_file ''pw'') = Inr demo_blob \<and>
   mime_type \<lparr> name = ''a.txt'', content = [1 :: byte, 2, 3],
               mime_type = ''application/octet-stream'' \<rparr> = ''application/octet-stream'' \<and>
   (\<forall>r now file W ty.
      encryptFile demo_platform r now (file\<lparr> mime_type := ty \<rparr>) W =
      encryptFile demo_platform r now file W)"
proof -
  have dec: "decryptFile demo_platform demo_blob ''pw'' =
     Inr \<lparr> name = ''a.txt'', content = [1, 2, 3], mime_type = ''application/octet-stream'' \<rparr>"
    by (simp add: decryptFile_def decryptFile_try_def deriveKey_eq demo_eval demo_blob_def)
  from decrypted_mime_type [OF dec] dec demo_blob_sealed
  show ?thesis by (simp add: demo_file_def)
qed

subsection \<open>Storing and reloading\<close>

lemma decode_encoded_columns:
  "decode_columns
     (row\<lparr> col_encrypted_data := btoa (fromCharCode d),
           col_iv := btoa (fromCharCode i),
           col_salt := btoa (fromCharCode s) \<rparr>) = Inr (d, i, s)"
  by (simp add: decode_columns_def atob_btoa charCodes_fromCharCode)

lemma get_single_row:
  assumes "filter (\<lambda>row. col_id row = fileId) (visible_rows sb) = [row]"
    and "decode_columns row = Inr (d, i, s)"
  shows "getEncryptedFileFromDB sb fileId =
           Inr (Some \<lparr> encryptedData = d, iv = i, salt = s, authTag = replicate 16 0,
                       filename = col_filename row, originalSize = col_file_size row,
                       timestamp = col_created_at row, checksum = [] \<rparr>)"
  using assms by (simp add: getEncryptedFileFromDB_def single_def)

text \<open>
  What survives: for a signed-in user, a fresh identifier and a blob whose three binary
  fields each fit in one call, the blob read back has the ciphertext, IV, salt, file name
  and size that were stored; its tag is sixteen zero bytes, its checksum the empty string,
  and its timestamp the row's creation time.
\<close>

lemma store_and_reload_result:
  assumes "auth_user sb = Some u" and "new_id \<notin> col_id ` set (encrypted_files sb)"
    and "length (encryptedData b) \<le> max_args" and "length (iv b) \<le> max_args"
    and "length (salt b) \<le> max_args"
  shows "store_and_reload sb max_args new_id db_now b =
           Inr (Some (b\<lparr> authTag := replicate 16 0, timestamp := db_now, checksum := [] \<rparr>))"
proof -
  let ?row = "\<lparr> col_id = new_id, col_user_id = u, col_filename = filename b,
                 col_file_size = originalSize b, col_mime_type = ''application/octet-stream'',
                 col_encrypted_data = btoa (fromCharCode (encryptedData b)),
                 col_iv = btoa (fromCharCode (iv b)),
                 col_salt = btoa (fromCharCode (salt b)),
                 col_created_at = db_now \<rparr>"
  let ?sb' = "sb\<lparr> encrypted_files := encrypted_files sb @ [?row] \<rparr>"
  have store: "storeEncryptedFileInDB sb max_args new_id db_now b = Inr (new_id, ?sb')"
    using assms
    by (simp add: storeEncryptedFileInDB_def fromCharCode_spread_def insert_row_def Let_def)
  have "\<forall>row\<in>set (encrypted_files sb). col_id row \<noteq> new_id"
    using assms(2) by auto
  then have rows: "filter (\<lambda>row. col_id row = new_id) (visible_rows ?sb') = [?row]"
    using assms(1) by (simp add: visible_rows_def filter_empty_conv)
  have dec: "decode_columns ?row = Inr (encryptedData b, iv b, salt b)"
    using decode_encoded_columns [where row = ?row and d = "encryptedData b" and i = "iv b"
        and s = "salt b"] by simp
  have "getEncryptedFileFromDB ?sb' new_id =
          Inr (Some (b\<lparr> authTag := replicate 16 0, timestamp := db_now, checksum := [] \<rparr>))"
    by (simp add: get_single_row [OF rows dec])
  with store show ?thesis by (simp add: store_and_reload_def)
qed

text \<open>
  A ciphertext of more bytes than one call takes is not stored: the spread throws, and
  no row is inserted.
\<close>

lemma store_too_large:
  assumes "auth_user sb = Some u" and "max_args < length (encryptedData b)"
  shows "storeEncryptedFileInDB sb max_args new_id db_now b = Inl RangeError"
  using assms by (simp add: storeEncryptedFileInDB_def fromCharCode_spread_def)

text \<open>
  C4. The claim asks that the blob read back has the stored tag and checksum. On
  \<open>demo_blob\<close>, with an engine that takes 65536 arguments, the store succeeds and the
  blob read back has a zero tag and an empty checksum, which are not the blob's;
  \<open>decryptFile\<close> then fails on it under the password that sealed it.
\<close>

theorem stored_blob_loses_tag_and_checksum:
  "store_and_reload demo_db 65536 ''file-1'' 5 demo_blob =
     Inr (Some (demo_blob\<lparr> authTag := replicate 16 0, timestamp := 5, checksum := [] \<rparr>)) \<and>
   authTag demo_blob \<noteq> replicate 16 0 \<and>
   checksum demo_blob \<noteq> [] \<and>
   decryptFile demo_platform
       (demo_blob\<lparr> authTag := replicate 16 0, timestamp := 5, checksum := [] \<rparr>) ''pw''
     = Inl (Error ''Failed to decrypt file - incorrect password or corrupted data'')"
proof -
  have "store_and_reload demo_db 65536 ''file-1'' 5 demo_blob =
     Inr (Some (demo_blob\<lparr> authTag := replicate 16 0, timestamp := 5, checksum := [] \<rparr>))"
    by (rule store_and_reload_result [of demo_db "''user-1''"])
      (simp_all add: demo_db_def demo_blob_def)
  then show ?thesis
    by (simp add: decryptFile_def decryptFile_try_def deriveKey_eq demo_eval demo_blob_def)
qed

end
